theory Spec2Isabelle
  imports Main
begin

section \<open>Quick launch of the Apex replay debugger from a single test\<close>

text \<open>
  A shallow embedding of \<^verbatim>\<open>commands/quickLaunch.ts\<close> of the Apex replay debugger
  extension: \<^verbatim>\<open>QuickLaunch.debugTest\<close>, its two private stages
  \<^verbatim>\<open>runSingleTest\<close> and \<^verbatim>\<open>retrieveLogFile\<close>, and
  \<^verbatim>\<open>TestDebuggerExecutor.run\<close>. The entry point \<^verbatim>\<open>setupAndDebugTests\<close> only
  wraps its two arguments into a response and hands it to the inherited
  \<^verbatim>\<open>execute\<close> of the executor's base class, which is not part of the file.
\<close>

subsection \<open>JavaScript values\<close>

text \<open>
  An optional string (\<^verbatim>\<open>string | undefined | null\<close>) is a \<open>string option\<close>,
  with \<open>None\<close> for \<^verbatim>\<open>undefined\<close> and \<^verbatim>\<open>null\<close>. The source tests such
  values by their truthiness (\<^verbatim>\<open>if (v)\<close>, \<^verbatim>\<open>!v\<close>, \<^verbatim>\<open>v ? a : b\<close>): a string is
  truthy unless it is empty.
\<close>

definition truthy :: "string option \<Rightarrow> bool" where
  "truthy v = (case v of None \<Rightarrow> False | Some s \<Rightarrow> s \<noteq> [])"

text \<open>Reading an array at an index beyond its end gives \<^verbatim>\<open>undefined\<close>.\<close>

definition js_index :: "'a option list \<Rightarrow> nat \<Rightarrow> 'a option" where
  "js_index xs i = (if i < length xs then xs ! i else None)"

text \<open>
  A thrown value, as far as the source looks at it. JavaScript can throw any value, and a
  promise can reject with any value. \<open>Error m\<close> is a thrown object whose
  \<^verbatim>\<open>message\<close> property reads \<open>m\<close>: a string for an \<^verbatim>\<open>Error\<close>, possibly
  missing on another object. \<open>Nullish\<close> is a thrown \<^verbatim>\<open>null\<close> or
  \<^verbatim>\<open>undefined\<close>, which has no property to read.
\<close>

datatype js_error = Error "string option" | Nullish

subsection \<open>Data model\<close>

text \<open>An authenticated session handle, opaque to this file (named by its user).\<close>

datatype connection = Connection string

record TestRunResult =
  logFileId :: "string option"
  message :: "string option"
  success :: bool

record LogFileRetrieveResult =
  filePath :: "string option"
  success :: bool

text \<open>
  The request and result types of the test service. Of a test item the source sets
  \<^verbatim>\<open>className\<close> and \<^verbatim>\<open>testMethods\<close>; of a result entry it reads
  \<^verbatim>\<open>apexLogId\<close> only, so the remaining fields of an entry and of the result are kept
  as one opaque value each.
\<close>

record TestItem =
  className :: "string option"
  testMethods :: "string list option"

record SyncTestConfiguration =
  tests :: "TestItem list"
  testLevel :: string

record ApexTestResultData =
  apexLogId :: "string option"
  otherEntryFields :: string

record TestResult =
  tests :: "ApexTestResultData list"
  otherResultFields :: string

record 'a ContinueResponse =
  type :: string
  data :: "'a option"

subsection \<open>Collaborators and their observable calls\<close>

text \<open>
  Every collaborator of the file lives outside it. Their answers are the fields of an
  environment; a call that may throw or reject answers with \<open>Inl\<close> of the thrown value.
  \<open>path_join\<close> is Node's \<^verbatim>\<open>path.join\<close> on two segments and \<open>localize\<close> is
  \<^verbatim>\<open>nls.localize\<close>. \<open>typeErrorMessage\<close> is the text of the \<^verbatim>\<open>TypeError\<close>
  that the JavaScript engine throws when a property of \<^verbatim>\<open>null\<close> or
  \<^verbatim>\<open>undefined\<close> is read; it depends on the engine.
\<close>

record env =
  getConnection :: "js_error + connection"
  ensureTraceFlags :: "connection \<Rightarrow> js_error + bool"
  runTestSynchronous :: "connection \<Rightarrow> SyncTestConfiguration \<Rightarrow> js_error + TestResult"
  getLogs :: "connection \<Rightarrow> string \<Rightarrow> string \<Rightarrow> js_error + unit"
  getLogDirPath :: string
  path_join :: "string \<Rightarrow> string \<Rightarrow> string"
  localize :: "string \<Rightarrow> string"
  typeErrorMessage :: string

text \<open>
  The expression \<^verbatim>\<open>e.message\<close> on a caught value: the property of an object, and a
  \<^verbatim>\<open>TypeError\<close> thrown on \<^verbatim>\<open>null\<close> or \<^verbatim>\<open>undefined\<close>.
\<close>

definition error_message :: "env \<Rightarrow> js_error \<Rightarrow> js_error + string option" where
  "error_message e err =
     (case err of
        Error m \<Rightarrow> Inr m
      | Nullish \<Rightarrow> Inl (Error (Some (typeErrorMessage e))))"

text \<open>
  What a run does to the outside world is the list of the calls it makes, in order:
  the constructions (\<^verbatim>\<open>new\<close>) and the calls of collaborators that act.
\<close>

datatype event =
    GetConnection
  | NewTraceFlags connection
  | EnsureTraceFlags connection
  | NewTestService connection
  | RunTestSynchronous connection SyncTestConfiguration
  | NewLogService connection
  | GetLogs connection string string
  | LaunchFromLogFile string bool
  | ShowErrorMessage string
  | NewQuickLaunch

text \<open>
  An asynchronous computation either returns a value or rejects with a thrown value, and
  has made a list of calls by then. \<open>io_bind\<close> is \<^verbatim>\<open>await\<close> followed by the rest of
  the function body: a rejection ends the body at once. \<open>io_try\<close> is
  \<^verbatim>\<open>try { ... } catch (e) { ... }\<close>: what the handler throws is thrown by the whole.
  \<open>io_eval\<close> is an expression that makes no call but may throw.
\<close>

type_synonym 'a io = "(js_error + 'a) \<times> event list"

definition io_return :: "'a \<Rightarrow> 'a io" where
  "io_return x = (Inr x, [])"

definition io_eval :: "js_error + 'a \<Rightarrow> 'a io" where
  "io_eval r = (r, [])"

definition io_call :: "event \<Rightarrow> js_error + 'a \<Rightarrow> 'a io" where
  "io_call ev answer = (answer, [ev])"

definition io_bind :: "'a io \<Rightarrow> ('a \<Rightarrow> 'b io) \<Rightarrow> 'b io" where
  "io_bind m f =
     (case m of
        (Inl e, t) \<Rightarrow> (Inl e, t)
      | (Inr x, t) \<Rightarrow> (case f x of (r, t') \<Rightarrow> (r, t @ t')))"

definition io_try :: "'a io \<Rightarrow> (js_error \<Rightarrow> 'a io) \<Rightarrow> 'a io" where
  "io_try m handler =
     (case m of
        (Inl e, t) \<Rightarrow> (case handler e of (r, t') \<Rightarrow> (r, t @ t'))
      | (Inr x, t) \<Rightarrow> (Inr x, t))"

subsection \<open>The test invocation stage\<close>

text \<open>The request that \<^verbatim>\<open>runSingleTest\<close> builds (its constant \<^verbatim>\<open>testOptions\<close>).\<close>

definition testOptions :: "string option \<Rightarrow> string option \<Rightarrow> SyncTestConfiguration" where
  "testOptions testClass testMethod =
     \<lparr> SyncTestConfiguration.tests =
         [\<lparr> className = testClass,
            testMethods = (if truthy testMethod then Some [the testMethod] else None) \<rparr>],
       testLevel = ''RunSpecifiedTests'' \<rparr>"

definition runSingleTest ::
  "env \<Rightarrow> connection \<Rightarrow> string option \<Rightarrow> string option \<Rightarrow> TestRunResult io" where
  "runSingleTest e connection testClass testMethod =
     io_bind (io_call (NewTestService connection) (Inr ())) (\<lambda>testService.
     io_try
       (io_bind
          (io_call (RunTestSynchronous connection (testOptions testClass testMethod))
             (runTestSynchronous e connection (testOptions testClass testMethod)))
          (\<lambda>result.
             let tests = TestResult.tests result in
             if length tests = 0 then
               io_return
                 \<lparr> logFileId = None,
                   message = Some (localize e ''debug_test_no_results_found''),
                   success = False \<rparr>
             else if \<not> truthy (apexLogId (tests ! 0)) then
               io_return
                 \<lparr> logFileId = None,
                   message = Some (localize e ''debug_test_no_debug_log''),
                   success = False \<rparr>
             else
               io_return
                 \<lparr> logFileId = apexLogId (tests ! 0), message = None, success = True \<rparr>))
       (\<lambda>err.
          io_bind (io_eval (error_message e err)) (\<lambda>errMessage.
          io_return \<lparr> logFileId = None, message = errMessage, success = False \<rparr>)))"

subsection \<open>The log acquisition stage\<close>

definition retrieveLogFile :: "env \<Rightarrow> connection \<Rightarrow> string \<Rightarrow> LogFileRetrieveResult io" where
  "retrieveLogFile e connection logId =
     io_bind (io_call (NewLogService connection) (Inr ())) (\<lambda>logService.
     let outputDir = getLogDirPath e in
     io_bind (io_call (GetLogs connection logId outputDir) (getLogs e connection logId outputDir))
       (\<lambda>_.
          let logPath = path_join e outputDir (logId @ ''.log'') in
          io_return \<lparr> filePath = Some logPath, success = True \<rparr>))"

subsection \<open>The orchestrator\<close>

definition debugTest :: "env \<Rightarrow> string option \<Rightarrow> string option \<Rightarrow> bool io" where
  "debugTest e testClass testName =
     io_bind (io_call GetConnection (getConnection e)) (\<lambda>connection.
     io_bind (io_call (NewTraceFlags connection) (Inr ())) (\<lambda>flags.
     io_bind (io_call (EnsureTraceFlags connection) (ensureTraceFlags e connection)) (\<lambda>ready.
     if \<not> ready then io_return False
     else
       io_bind (runSingleTest e connection testClass testName) (\<lambda>testResult.
       if TestRunResult.success testResult \<and> truthy (logFileId testResult) then
         io_bind (retrieveLogFile e connection (the (logFileId testResult)))
           (\<lambda>logFileRetrive.
              if LogFileRetrieveResult.success logFileRetrive
                 \<and> truthy (filePath logFileRetrive)
              then
                io_bind
                  (io_call (LaunchFromLogFile (the (filePath logFileRetrive)) False) (Inr ()))
                  (\<lambda>_. io_return True)
              else io_return False)
       else if truthy (message testResult) then
         io_bind (io_call (ShowErrorMessage (the (message testResult))) (Inr ()))
           (\<lambda>_. io_return False)
       else io_return False))))"

subsection \<open>The command executor\<close>

definition run :: "env \<Rightarrow> string option list ContinueResponse \<Rightarrow> bool io" where
  "run e response =
     (case data response of
        None \<Rightarrow> io_return False
      | Some d \<Rightarrow>
          let className = js_index d 0; methodName = js_index d 1 in
          io_bind (io_call NewQuickLaunch (Inr ())) (\<lambda>quickLaunch.
          io_bind (debugTest e className methodName) (\<lambda>success.
          io_return success)))"

subsection \<open>Reading a list of calls\<close>

fun launch_calls :: "event list \<Rightarrow> (string \<times> bool) list" where
  "launch_calls [] = []"
| "launch_calls (LaunchFromLogFile p b # t) = (p, b) # launch_calls t"
| "launch_calls (_ # t) = launch_calls t"

fun notifications :: "event list \<Rightarrow> string list" where
  "notifications [] = []"
| "notifications (ShowErrorMessage m # t) = m # notifications t"
| "notifications (_ # t) = notifications t"

fun download_calls :: "event list \<Rightarrow> (string \<times> string) list" where
  "download_calls [] = []"
| "download_calls (GetLogs c l d # t) = (l, d) # download_calls t"
| "download_calls (_ # t) = download_calls t"

fun invocation_requests :: "event list \<Rightarrow> SyncTestConfiguration list" where
  "invocation_requests [] = []"
| "invocation_requests (RunTestSynchronous c r # t) = r # invocation_requests t"
| "invocation_requests (_ # t) = invocation_requests t"

subsection \<open>The invariant of a test run outcome\<close>

text \<open>
  A successful outcome has a log file identifier and a failed one has none; the message
  is free.
\<close>

definition TestRunResult_invariant :: "TestRunResult \<Rightarrow> bool" where
  "TestRunResult_invariant r =
     ((TestRunResult.success r \<longrightarrow> logFileId r \<noteq> None)
      \<and> (\<not> TestRunResult.success r \<longrightarrow> logFileId r = None))"

subsection \<open>Sample environments\<close>

text \<open>
  Scenario A: diagnostics are ready, the run returns one entry with a log identifier and
  the download succeeds. Paths are joined with a slash and messages are their keys.
\<close>

definition env_ok :: env where
  "env_ok =
     \<lparr> getConnection = Inr (Connection ''dev-org''),
       ensureTraceFlags = (\<lambda>c. Inr True),
       runTestSynchronous = (\<lambda>c request.
         Inr \<lparr> TestResult.tests =
                 [\<lparr> apexLogId = Some ''07L5w00000'', otherEntryFields = ''Pass'' \<rparr>],
               otherResultFields = ''summary'' \<rparr>),
       getLogs = (\<lambda>c logId outputDir. Inr ()),
       getLogDirPath = ''/ws/.sfdx/tools/debug/logs'',
       path_join = (\<lambda>a b. a @ ''/'' @ b),
       localize = (\<lambda>key. key),
       typeErrorMessage = ''Cannot read properties of undefined (reading 'message')'' \<rparr>"

text \<open>Scenario B: diagnostics cannot be made ready.\<close>

definition env_not_ready :: env where
  "env_not_ready = env_ok \<lparr> ensureTraceFlags := (\<lambda>c. Inr False) \<rparr>"

text \<open>Scenario C: the run returns no entry.\<close>

definition env_no_results :: env where
  "env_no_results =
     env_ok \<lparr> runTestSynchronous := (\<lambda>c request.
       Inr \<lparr> TestResult.tests = [], otherResultFields = ''summary'' \<rparr>) \<rparr>"

text \<open>The first entry has no log identifier, the second has one.\<close>

definition env_no_log :: env where
  "env_no_log =
     env_ok \<lparr> runTestSynchronous := (\<lambda>c request.
       Inr \<lparr> TestResult.tests =
               [\<lparr> apexLogId = None, otherEntryFields = ''Pass'' \<rparr>,
                \<lparr> apexLogId = Some ''07L5w00001'', otherEntryFields = ''Pass'' \<rparr>],
             otherResultFields = ''summary'' \<rparr>) \<rparr>"

text \<open>Scenario D: the remote call raises \<^verbatim>\<open>Error("timeout")\<close>.\<close>

definition env_timeout :: env where
  "env_timeout =
     env_ok \<lparr> runTestSynchronous := (\<lambda>c request. Inl (Error (Some ''timeout''))) \<rparr>"


section \<open>Properties\<close>

lemmas io_defs = io_return_def io_eval_def io_call_def io_bind_def io_try_def

text \<open>
  Whatever the service answers, \<open>runSingleTest\<close> makes the same two calls: it constructs
  the test service and sends it the one request.
\<close>

lemma runSingleTest_calls:
  "snd (runSingleTest e c testClass testMethod) =
     [NewTestService c, RunTestSynchronous c (testOptions testClass testMethod)]"
proof (cases "runTestSynchronous e c (testOptions testClass testMethod)")
  case (Inl err)
  then show ?thesis
    by (cases err) (simp_all add: runSingleTest_def io_defs error_message_def)
next
  case (Inr result)
  then show ?thesis
    by (simp add: runSingleTest_def io_defs Let_def)
qed

lemma runSingleTest_pair:
  "runSingleTest e c testClass testMethod =
     (fst (runSingleTest e c testClass testMethod),
      [NewTestService c, RunTestSynchronous c (testOptions testClass testMethod)])"
  using runSingleTest_calls [of e c testClass testMethod]
  by (cases "runSingleTest e c testClass testMethod") simp

subsection \<open>The orchestrator on the success path\<close>

text \<open>
  C1. In a run where the connection is acquired, the diagnostics readiness check returns
  true, the remote invocation returns a test list whose first entry carries a log
  identifier (a non-empty string, which is how the source tests it) and the log download
  does not raise, \<open>debugTest\<close> returns true and the replay launcher is called exactly once,
  with the path joined from the output directory and the log identifier followed by
  \<^verbatim>\<open>.log\<close> as first argument and \<^verbatim>\<open>false\<close> as second. The source checks
  that the joined path is truthy before it launches; Node's \<^verbatim>\<open>path.join\<close> never
  returns the empty string, which is the last assumption.
\<close>

theorem debugTest_success_launches_once:
  assumes "getConnection e = Inr c"
    and "ensureTraceFlags e c = Inr True"
    and "runTestSynchronous e c (testOptions testClass testName) = Inr result"
    and "TestResult.tests result = entry # rest"
    and "apexLogId entry = Some logId"
    and "logId \<noteq> []"
    and "getLogs e c logId (getLogDirPath e) = Inr ()"
    and "path_join e (getLogDirPath e) (logId @ ''.log'') \<noteq> []"
  shows "fst (debugTest e testClass testName) = Inr True
       \<and> launch_calls (snd (debugTest e testClass testName)) =
           [(path_join e (getLogDirPath e) (logId @ ''.log''), False)]"
  using assms
  by (simp add: debugTest_def runSingleTest_def retrieveLogFile_def io_defs truthy_def Let_def)

theorem debugTest_success_launches_once_witness:
  "getConnection env_ok = Inr (Connection ''dev-org'')
   \<and> ensureTraceFlags env_ok (Connection ''dev-org'') = Inr True
   \<and> getLogs env_ok (Connection ''dev-org'') ''07L5w00000'' (getLogDirPath env_ok) = Inr ()
   \<and> fst (debugTest env_ok (Some ''AccountTest'') (Some ''testInsert'')) = Inr True
   \<and> launch_calls (snd (debugTest env_ok (Some ''AccountTest'') (Some ''testInsert''))) =
       [(''/ws/.sfdx/tools/debug/logs/07L5w00000.log'', False)]"
  using debugTest_success_launches_once
    [of env_ok "Connection ''dev-org''" "Some ''AccountTest''" "Some ''testInsert''"
      "\<lparr> TestResult.tests =
          [\<lparr> apexLogId = Some ''07L5w00000'', otherEntryFields = ''Pass'' \<rparr>],
         otherResultFields = ''summary'' \<rparr>"
      "\<lparr> apexLogId = Some ''07L5w00000'', otherEntryFields = ''Pass'' \<rparr>" "[]"
      "''07L5w00000''"]
  by (simp add: env_ok_def)

subsection \<open>The invocation stage\<close>




text \<open>
  C3. When the returned test list is not empty and its first entry has no log identifier
  (none at all, or an empty one), \<open>runSingleTest\<close> returns a failure outcome with the
  "no debug log" message, whatever the later entries \<open>rest\<close> carry.
\<close>

theorem runSingleTest_first_entry_without_log:
  assumes "runTestSynchronous e c (testOptions testClass testMethod) = Inr result"
    and "TestResult.tests result = entry # rest"
    and "\<not> truthy (apexLogId entry)"
  shows "runSingleTest e c testClass testMethod =
           (Inr \<lparr> logFileId = None,
                  message = Some (localize e ''debug_test_no_debug_log''),
                  success = False \<rparr>,
            [NewTestService c, RunTestSynchronous c (testOptions testClass testMethod)])"
  using assms
  by (simp add: runSingleTest_def io_defs Let_def)

theorem runSingleTest_first_entry_without_log_witness:
  "\<not> truthy (apexLogId \<lparr> apexLogId = None, otherEntryFields = ''Pass'' \<rparr>)
   \<and> truthy (apexLogId \<lparr> apexLogId = Some ''07L5w00001'', otherEntryFields = ''Pass'' \<rparr>)
   \<and> fst (runSingleTest env_no_log (Connection ''dev-org'') (Some ''AccountTest'') None) =
       Inr \<lparr> logFileId = None, message = Some ''debug_test_no_debug_log'', success = False \<rparr>"
  using runSingleTest_first_entry_without_log
    [of env_no_log "Connection ''dev-org''" "Some ''AccountTest''" None
      "\<lparr> TestResult.tests =
          [\<lparr> apexLogId = None, otherEntryFields = ''Pass'' \<rparr>,
           \<lparr> apexLogId = Some ''07L5w00001'', otherEntryFields = ''Pass'' \<rparr>],
         otherResultFields = ''summary'' \<rparr>"
      "\<lparr> apexLogId = None, otherEntryFields = ''Pass'' \<rparr>"
      "[\<lparr> apexLogId = Some ''07L5w00001'', otherEntryFields = ''Pass'' \<rparr>]"]
  by (simp add: env_no_log_def env_ok_def truthy_def)

text \<open>
  C4. When the returned test list is empty, \<open>runSingleTest\<close> returns a failure outcome
  with the "no results found" message, whatever the other fields of the result are.
\<close>

theorem runSingleTest_no_results:
  assumes "runTestSynchronous e c (testOptions testClass testMethod) = Inr result"
    and "TestResult.tests result = []"
  shows "runSingleTest e c testClass testMethod =
           (Inr \<lparr> logFileId = None,
                  message = Some (localize e ''debug_test_no_results_found''),
                  success = False \<rparr>,
            [NewTestService c, RunTestSynchronous c (testOptions testClass testMethod)])"
  using assms
  by (simp add: runSingleTest_def io_defs Let_def)

theorem runSingleTest_no_results_witness:
  "fst (runSingleTest env_no_results (Connection ''dev-org'') (Some ''AccountTest'') None) =
     Inr \<lparr> logFileId = None, message = Some ''debug_test_no_results_found'',
           success = False \<rparr>"
  using runSingleTest_no_results
    [of env_no_results "Connection ''dev-org''" "Some ''AccountTest''" None
      "\<lparr> TestResult.tests = [], otherResultFields = ''summary'' \<rparr>"]
  by (simp add: env_no_results_def env_ok_def)

subsection \<open>The orchestrator on the failure paths\<close>

text \<open>
  C5. In a run that reaches the invocation stage, when its outcome is not (succeeded with
  a log reference) and carries a message (a non-empty string, which is how the source
  tests it), \<open>debugTest\<close> shows exactly that message, exactly once, and returns false;
  the log acquisition stage and the replay launcher are not called. The calls of the whole
  run are listed.
\<close>

theorem debugTest_failure_surfaces_message:
  assumes "getConnection e = Inr c"
    and "ensureTraceFlags e c = Inr True"
    and "fst (runSingleTest e c testClass testName) = Inr outcome"
    and "\<not> (TestRunResult.success outcome \<and> truthy (logFileId outcome))"
    and "message outcome = Some msg"
    and "msg \<noteq> []"
  shows "fst (debugTest e testClass testName) = Inr False
       \<and> notifications (snd (debugTest e testClass testName)) = [msg]
       \<and> download_calls (snd (debugTest e testClass testName)) = []
       \<and> launch_calls (snd (debugTest e testClass testName)) = []
       \<and> snd (debugTest e testClass testName) =
           [GetConnection, NewTraceFlags c, EnsureTraceFlags c, NewTestService c,
            RunTestSynchronous c (testOptions testClass testName), ShowErrorMessage msg]"
proof -
  have "debugTest e testClass testName =
          (Inr False,
           [GetConnection, NewTraceFlags c, EnsureTraceFlags c, NewTestService c,
            RunTestSynchronous c (testOptions testClass testName), ShowErrorMessage msg])"
    using assms
    by (subst debugTest_def, subst runSingleTest_pair) (auto simp add: io_defs truthy_def)
  then show ?thesis by simp
qed

theorem debugTest_failure_surfaces_message_witness:
  "fst (runSingleTest env_no_results (Connection ''dev-org'') (Some ''AccountTest'') None) =
     Inr \<lparr> logFileId = None, message = Some ''debug_test_no_results_found'',
           success = False \<rparr>
   \<and> fst (debugTest env_no_results (Some ''AccountTest'') None) = Inr False
   \<and> notifications (snd (debugTest env_no_results (Some ''AccountTest'') None)) =
       [''debug_test_no_results_found'']
   \<and> download_calls (snd (debugTest env_no_results (Some ''AccountTest'') None)) = []
   \<and> launch_calls (snd (debugTest env_no_results (Some ''AccountTest'') None)) = []"
proof -
  have r:
    "fst (runSingleTest env_no_results (Connection ''dev-org'') (Some ''AccountTest'') None) =
       Inr \<lparr> logFileId = None, message = Some ''debug_test_no_results_found'',
             success = False \<rparr>"
    by (simp add: runSingleTest_def io_defs env_no_results_def env_ok_def)
  show ?thesis
    using r debugTest_failure_surfaces_message
      [of env_no_results "Connection ''dev-org''" "Some ''AccountTest''" None
        "\<lparr> logFileId = None, message = Some ''debug_test_no_results_found'',
           success = False \<rparr>"
        "''debug_test_no_results_found''"]
    by (simp add: env_no_results_def env_ok_def truthy_def)
qed

text \<open>
  C6. In a run where the diagnostics readiness check returns false, \<open>debugTest\<close> returns
  false after three calls (the connection, the construction of the trace flags, the
  readiness check): no message is shown, and the test invocation, the log download and
  the replay launcher are not called.
\<close>

theorem debugTest_diagnostics_not_ready:
  assumes "getConnection e = Inr c"
    and "ensureTraceFlags e c = Inr False"
  shows "debugTest e testClass testName =
           (Inr False, [GetConnection, NewTraceFlags c, EnsureTraceFlags c])
       \<and> notifications (snd (debugTest e testClass testName)) = []
       \<and> invocation_requests (snd (debugTest e testClass testName)) = []
       \<and> download_calls (snd (debugTest e testClass testName)) = []
       \<and> launch_calls (snd (debugTest e testClass testName)) = []"
  using assms by (simp add: debugTest_def io_defs)

theorem debugTest_diagnostics_not_ready_witness:
  "ensureTraceFlags env_not_ready (Connection ''dev-org'') = Inr False
   \<and> debugTest env_not_ready (Some ''AccountTest'') (Some ''testInsert'') =
       (Inr False,
        [GetConnection, NewTraceFlags (Connection ''dev-org''),
         EnsureTraceFlags (Connection ''dev-org'')])"
  using debugTest_diagnostics_not_ready
    [of env_not_ready "Connection ''dev-org''" "Some ''AccountTest''" "Some ''testInsert''"]
  by (simp add: env_not_ready_def env_ok_def)

subsection \<open>The acquisition stage\<close>

text \<open>
  C7. For every log reference, when the log download call does not raise,
  \<open>retrieveLogFile\<close> returns a success outcome whose path is the output directory joined
  with the log reference followed by \<^verbatim>\<open>.log\<close>; and whenever it returns an outcome at
  all, the outcome is a success.
\<close>

theorem retrieveLogFile_success_path:
  "(getLogs e c logId (getLogDirPath e) = Inr () \<longrightarrow>
      retrieveLogFile e c logId =
        (Inr \<lparr> filePath = Some (path_join e (getLogDirPath e) (logId @ ''.log'')),
               success = True \<rparr>,
         [NewLogService c, GetLogs c logId (getLogDirPath e)]))
   \<and> (\<forall>outcome. fst (retrieveLogFile e c logId) = Inr outcome \<longrightarrow>
         LogFileRetrieveResult.success outcome)"
  by (cases "getLogs e c logId (getLogDirPath e)")
     (auto simp add: retrieveLogFile_def io_defs Let_def)

theorem retrieveLogFile_success_path_witness:
  "getLogs env_ok (Connection ''dev-org'') ''07L5w00000'' (getLogDirPath env_ok) = Inr ()
   \<and> retrieveLogFile env_ok (Connection ''dev-org'') ''07L5w00000'' =
        (Inr \<lparr> filePath = Some ''/ws/.sfdx/tools/debug/logs/07L5w00000.log'',
               success = True \<rparr>,
         [NewLogService (Connection ''dev-org''),
          GetLogs (Connection ''dev-org'') ''07L5w00000'' ''/ws/.sfdx/tools/debug/logs''])
   \<and> LogFileRetrieveResult.success
        \<lparr> filePath = Some ''/ws/.sfdx/tools/debug/logs/07L5w00000.log'', success = True \<rparr>"
  using retrieveLogFile_success_path [of env_ok "Connection ''dev-org''" "''07L5w00000''"]
  by (simp add: env_ok_def)

subsection \<open>The invocation request\<close>

text \<open>
  C8. The request that \<open>runSingleTest\<close> sends to the test service, whatever the service
  answers: with a method name supplied (a non-empty string, which is how the source tests
  it) it has exactly one test item, of that class and with exactly that one method; with
  no method name it has exactly one test item, of that class and with no method
  constraint; in both cases the test level is \<^verbatim>\<open>RunSpecifiedTests\<close>.
\<close>

theorem runSingleTest_request_shape:
  "(methodName \<noteq> [] \<longrightarrow>
      invocation_requests (snd (runSingleTest e c testClass (Some methodName))) =
        [\<lparr> SyncTestConfiguration.tests =
             [\<lparr> className = testClass, testMethods = Some [methodName] \<rparr>],
           testLevel = ''RunSpecifiedTests'' \<rparr>])
   \<and> invocation_requests (snd (runSingleTest e c testClass None)) =
        [\<lparr> SyncTestConfiguration.tests =
             [\<lparr> className = testClass, testMethods = None \<rparr>],
           testLevel = ''RunSpecifiedTests'' \<rparr>]"
  by (simp add: runSingleTest_calls testOptions_def truthy_def)

theorem runSingleTest_request_shape_witness:
  "''testInsert'' \<noteq> []
   \<and> invocation_requests
        (snd (runSingleTest env_ok (Connection ''dev-org'') (Some ''AccountTest'')
               (Some ''testInsert''))) =
        [\<lparr> SyncTestConfiguration.tests =
             [\<lparr> className = Some ''AccountTest'', testMethods = Some [''testInsert''] \<rparr>],
           testLevel = ''RunSpecifiedTests'' \<rparr>]
   \<and> invocation_requests
        (snd (runSingleTest env_ok (Connection ''dev-org'') (Some ''AccountTest'') None)) =
        [\<lparr> SyncTestConfiguration.tests =
             [\<lparr> className = Some ''AccountTest'', testMethods = None \<rparr>],
           testLevel = ''RunSpecifiedTests'' \<rparr>]"
  using runSingleTest_request_shape
    [of "''testInsert''" env_ok "Connection ''dev-org''" "Some ''AccountTest''"]
  by simp

subsection \<open>The outcome invariant\<close>

text \<open>
  C9. Every outcome that \<open>runSingleTest\<close> returns satisfies the invariant: if it
  succeeded the log file identifier is present, and if it did not succeed the log file
  identifier is absent.
\<close>

theorem runSingleTest_outcome_invariant:
  assumes "fst (runSingleTest e c testClass testMethod) = Inr outcome"
  shows "TestRunResult_invariant outcome"
proof (cases "runTestSynchronous e c (testOptions testClass testMethod)")
  case (Inl err)
  with assms show ?thesis
    by (cases err)
       (auto simp add: runSingleTest_def io_defs error_message_def TestRunResult_invariant_def)
next
  case (Inr result)
  with assms show ?thesis
    by (auto simp add: runSingleTest_def io_defs Let_def TestRunResult_invariant_def truthy_def
        split: if_splits option.splits)
qed

theorem runSingleTest_outcome_invariant_witness:
  "fst (runSingleTest env_ok (Connection ''dev-org'') (Some ''AccountTest'') None) =
     Inr \<lparr> logFileId = Some ''07L5w00000'', message = None, success = True \<rparr>
   \<and> TestRunResult_invariant
       \<lparr> logFileId = Some ''07L5w00000'', message = None, success = True \<rparr>
   \<and> fst (runSingleTest env_timeout (Connection ''dev-org'') (Some ''AccountTest'') None) =
     Inr \<lparr> logFileId = None, message = Some ''timeout'', success = False \<rparr>
   \<and> TestRunResult_invariant
       \<lparr> logFileId = None, message = Some ''timeout'', success = False \<rparr>"
proof -
  have a: "fst (runSingleTest env_ok (Connection ''dev-org'') (Some ''AccountTest'') None) =
     Inr \<lparr> logFileId = Some ''07L5w00000'', message = None, success = True \<rparr>"
    by (simp add: runSingleTest_def io_defs Let_def truthy_def env_ok_def)
  have b: "fst (runSingleTest env_timeout (Connection ''dev-org'') (Some ''AccountTest'') None) =
     Inr \<lparr> logFileId = None, message = Some ''timeout'', success = False \<rparr>"
    by (simp add: runSingleTest_def io_defs error_message_def env_timeout_def env_ok_def)
  show ?thesis
    using a b runSingleTest_outcome_invariant [OF a] runSingleTest_outcome_invariant [OF b]
    by simp
qed

text \<open>
  An outcome is returned in every run but the one where the remote call throws
  \<^verbatim>\<open>null\<close> or \<^verbatim>\<open>undefined\<close>.
\<close>

lemma runSingleTest_returns_unless_nullish:
  assumes "runTestSynchronous e c (testOptions testClass testMethod) \<noteq> Inl Nullish"
  shows "\<exists>outcome. fst (runSingleTest e c testClass testMethod) = Inr outcome"
proof (cases "runTestSynchronous e c (testOptions testClass testMethod)")
  case (Inl err)
  with assms show ?thesis
    by (cases err) (simp_all add: runSingleTest_def io_defs error_message_def)
next
  case (Inr result)
  then show ?thesis
    by (simp add: runSingleTest_def io_defs Let_def)
qed

subsection \<open>The command executor\<close>

text \<open>
  C10. On a response whose data is absent, \<open>run\<close> returns false and makes no call at all:
  it neither constructs a \<open>QuickLaunch\<close> nor starts any stage. On a response with data it
  constructs a \<open>QuickLaunch\<close> and returns exactly what \<open>debugTest\<close> returns (or raises)
  for the first element of the data as class name and the second as method name, an
  element beyond the end of the data being \<^verbatim>\<open>undefined\<close>.
\<close>

theorem run_absent_or_delegates:
  "run e \<lparr> type = t, data = None \<rparr> = (Inr False, [])
   \<and> run e \<lparr> type = t, data = Some d \<rparr> =
       (fst (debugTest e (js_index d 0) (js_index d 1)),
        NewQuickLaunch # snd (debugTest e (js_index d 0) (js_index d 1)))"
  by (cases "debugTest e (js_index d 0) (js_index d 1)";
      cases "fst (debugTest e (js_index d 0) (js_index d 1))")
     (simp_all add: run_def io_defs Let_def)

theorem run_absent_or_delegates_witness:
  "run env_ok \<lparr> type = ''CONTINUE'', data = None \<rparr> = (Inr False, [])
   \<and> fst (run env_ok
        \<lparr> type = ''CONTINUE'', data = Some [Some ''AccountTest'', Some ''testInsert''] \<rparr>) =
       fst (debugTest env_ok (Some ''AccountTest'') (Some ''testInsert''))
   \<and> fst (run env_ok \<lparr> type = ''CONTINUE'', data = Some [Some ''AccountTest'', None] \<rparr>) =
       fst (debugTest env_ok (Some ''AccountTest'') None)"
  using run_absent_or_delegates
      [of env_ok "''CONTINUE''" "[Some ''AccountTest'', Some ''testInsert'']"]
    run_absent_or_delegates [of env_ok "''CONTINUE''" "[Some ''AccountTest'', None]"]
  by (simp add: js_index_def)

subsection \<open>Empty strings\<close>

text \<open>
  The source tests the method name, the log identifier and the message by truthiness, so
  an empty string counts as absent: an empty method name runs the whole class, an empty
  log identifier in the first entry gives the "no debug log" failure, and a failure whose
  message is empty is not shown.
\<close>

lemma testOptions_empty_method_name:
  "testOptions testClass (Some []) = testOptions testClass None"
  by (simp add: testOptions_def truthy_def)

lemma runSingleTest_empty_log_id:
  assumes "runTestSynchronous e c (testOptions testClass testMethod) = Inr result"
    and "TestResult.tests result = entry # rest"
    and "apexLogId entry = Some []"
  shows "fst (runSingleTest e c testClass testMethod) =
           Inr \<lparr> logFileId = None,
                 message = Some (localize e ''debug_test_no_debug_log''),
                 success = False \<rparr>"
  using assms
  by (simp add: runSingleTest_def io_defs Let_def truthy_def)

lemma debugTest_empty_message_not_shown:
  assumes "getConnection e = Inr c"
    and "ensureTraceFlags e c = Inr True"
    and "runTestSynchronous e c (testOptions testClass testName) = Inl (Error (Some []))"
  shows "fst (debugTest e testClass testName) = Inr False
       \<and> notifications (snd (debugTest e testClass testName)) = []"
  using assms
  by (simp add: debugTest_def runSingleTest_def io_defs error_message_def truthy_def Let_def)

end
